theory Spec2Isabelle
  imports Main "HOL-Library.Sublist"
begin

section \<open>JavaScript values and the operations the scripts apply to them\<close>

text \<open>
  The job steps handle values that come out of \<^verbatim>\<open>JSON.parse\<close>: their shape is not known
  statically, and the scripts read properties of them without checking it. Such a value is
  a \<open>jsval\<close>. Numbers are restricted to integers and strings to code units below 256; an
  object is its list of own properties in source order, looked up by first match.
\<close>

datatype jsval =
    JUndefined
  | JNull
  | JBool bool
  | JNum int
  | JNaN
  | JStr string
  | JArr "jsval list"
  | JObj "(string \<times> jsval) list"

text \<open>
  An exception that leaves a function. \<open>TypeError\<close> is what the engine raises on a property
  read of \<^verbatim>\<open>null\<close>/\<^verbatim>\<open>undefined\<close> and on a call of something that is not a function;
  \<open>SyntaxError\<close> is what \<^verbatim>\<open>JSON.parse\<close> raises; \<open>PlatformError\<close> is an exception thrown
  by a platform class (file, template, mail, service).
\<close>

datatype js_error = TypeError | SyntaxError | PlatformError

text \<open>Truthiness, as \<^verbatim>\<open>!x\<close>, \<^verbatim>\<open>x && y\<close> and \<^verbatim>\<open>x ? a : b\<close> test it.\<close>

fun truthy :: "jsval \<Rightarrow> bool" where
  "truthy JUndefined = False"
| "truthy JNull = False"
| "truthy (JBool b) = b"
| "truthy (JNum n) = (n \<noteq> 0)"
| "truthy JNaN = False"
| "truthy (JStr s) = (s \<noteq> [])"
| "truthy (JArr xs) = True"
| "truthy (JObj kvs) = True"

text \<open>Decimal digits of a natural number and of an integer, as \<^verbatim>\<open>'' + n\<close> prints them.\<close>

fun digit_char :: "nat \<Rightarrow> char" where
  "digit_char n = char_of (48 + n mod 10)"

fun show_nat :: "nat \<Rightarrow> string" where
  "show_nat n = (if n < 10 then [digit_char n] else show_nat (n div 10) @ [digit_char n])"

declare show_nat.simps [simp del]

definition show_int :: "int \<Rightarrow> string" where
  "show_int i = (if i < 0 then CHR ''-'' # show_nat (nat (- i)) else show_nat (nat i))"

text \<open>\<^verbatim>\<open>xs.join(sep)\<close> on a list of strings.\<close>

fun join :: "string \<Rightarrow> string list \<Rightarrow> string" where
  "join sep [] = []"
| "join sep [x] = x"
| "join sep (x # y # ys) = x @ sep @ join sep (y # ys)"

text \<open>
  \<^verbatim>\<open>s.split(c)\<close> for a one-character separator: the segments between the separators, the
  empty ones included; the empty string gives one empty segment.
\<close>

fun split :: "char \<Rightarrow> string \<Rightarrow> string list" where
  "split sep [] = [[]]"
| "split sep (c # cs) =
     (if c = sep then [] # split sep cs
      else (case split sep cs of
              [] \<Rightarrow> [[c]]
            | w # ws \<Rightarrow> (c # w) # ws))"

text \<open>
  The white space and line terminators that \<^verbatim>\<open>trim\<close> removes, among the code units below
  256: tab, line feed, vertical tab, form feed, carriage return, space, no-break space.
\<close>

definition is_space :: "char \<Rightarrow> bool" where
  "is_space c = (of_char c \<in> {9, 10, 11, 12, 13, 32, 160 :: nat})"

definition trim :: "string \<Rightarrow> string" where
  "trim s = rev (dropWhile is_space (rev (dropWhile is_space s)))"

text \<open>
  Property read \<^verbatim>\<open>v.key\<close> for the property names the scripts use on parsed data
  (\<^verbatim>\<open>length\<close>, \<^verbatim>\<open>cartridges\<close>, \<^verbatim>\<open>elementsToReport\<close>, \<^verbatim>\<open>cartridgediff\<close>): it raises on
  \<^verbatim>\<open>null\<close> and \<^verbatim>\<open>undefined\<close>, and gives \<^verbatim>\<open>undefined\<close> for a property that is absent.
\<close>

fun js_get :: "jsval \<Rightarrow> string \<Rightarrow> js_error + jsval" where
  "js_get JUndefined key = Inl TypeError"
| "js_get JNull key = Inl TypeError"
| "js_get (JObj kvs) key = Inr (case map_of kvs key of None \<Rightarrow> JUndefined | Some v \<Rightarrow> v)"
| "js_get (JArr xs) key = Inr (if key = ''length'' then JNum (int (length xs)) else JUndefined)"
| "js_get (JStr s) key = Inr (if key = ''length'' then JNum (int (length s)) else JUndefined)"
| "js_get v key = Inr JUndefined"

text \<open>Indexed read \<^verbatim>\<open>v[i]\<close> with a literal or loop index \<open>i\<close>.\<close>

fun js_index :: "jsval \<Rightarrow> nat \<Rightarrow> js_error + jsval" where
  "js_index JUndefined i = Inl TypeError"
| "js_index JNull i = Inl TypeError"
| "js_index (JArr xs) i = Inr (if i < length xs then xs ! i else JUndefined)"
| "js_index (JStr s) i = Inr (if i < length s then JStr [s ! i] else JUndefined)"
| "js_index (JObj kvs) i = Inr (case map_of kvs (show_nat i) of None \<Rightarrow> JUndefined | Some v \<Rightarrow> v)"
| "js_index v i = Inr JUndefined"

section \<open>CartridgePathComparisonReport.js: the pure helpers\<close>

text \<open>
  \<^verbatim>\<open>cartridgeStr.split(':').map(function (c) { return c.trim(); }).filter(Boolean)\<close>:
  \<^verbatim>\<open>Boolean\<close> of a string is false exactly for the empty string.
\<close>

definition normalizeCartridges :: "string \<Rightarrow> string list" where
  "normalizeCartridges cartridgeStr =
     filter (\<lambda>c. truthy (JStr c)) (map (\<lambda>c. trim c) (split CHR '':'' cartridgeStr))"

record DiffResult =
  onlyInA :: "string list"
  onlyInB :: "string list"

text \<open>
  \<^verbatim>\<open>new Set(list)\<close> and \<^verbatim>\<open>set.has(item)\<close>: membership by value, which on strings is exact
  equality.
\<close>

definition Set_new :: "string list \<Rightarrow> string set" where
  "Set_new xs = set xs"

definition Set_has :: "string set \<Rightarrow> string \<Rightarrow> bool" where
  "Set_has s item = (item \<in> s)"

definition compareCartridges :: "string list \<Rightarrow> string list \<Rightarrow> DiffResult" where
  "compareCartridges listA listB =
     (let setA = Set_new listA;
          setB = Set_new listB;
          onlyInA = filter (\<lambda>item. \<not> Set_has setB item) listA;
          onlyInB = filter (\<lambda>item. \<not> Set_has setA item) listB
      in \<lparr> onlyInA = onlyInA, onlyInB = onlyInB \<rparr>)"

section \<open>The platform: what the scripts call and what they leave behind\<close>

text \<open>\<^verbatim>\<open>new Status(status, code, message)\<close>; the one-argument form leaves code and message out.\<close>

datatype status_level = OK | ERROR

datatype Status = Status status_level "string option" "string option"

datatype log_level = LogDebug | LogInfo | LogWarn | LogError

type_synonym log_entry = "log_level \<times> string \<times> string list"

text \<open>The result of a service call (\<^verbatim>\<open>dw.svc.Result\<close>): its \<^verbatim>\<open>ok\<close> flag and its \<^verbatim>\<open>object\<close>.\<close>

record Result =
  ok :: bool
  object :: jsval

text \<open>A file of the working folder: its name, and its lines unless reading it throws.\<close>

record dir_entry =
  file_name :: string
  file_lines :: "string list option"

text \<open>
  The state of a \<^verbatim>\<open>dw.net.Mail\<close> object: \<^verbatim>\<open>addTo\<close> and \<^verbatim>\<open>addCc\<close> add to what it holds,
  \<^verbatim>\<open>setFrom\<close>, \<^verbatim>\<open>setSubject\<close> and \<^verbatim>\<open>setContent\<close> replace it.
\<close>

record message =
  mail_to :: "string list"
  mail_from :: "string option"
  mail_cc :: "string option list"
  mail_subject :: "string option"
  mail_content :: "string option"

datatype mail_call = AddTo | SetFrom | AddCc | SetSubject | SetContent

text \<open>
  The platform is a parameter of the model. Built-ins of the language that are not modelled
  here are fields of it (\<open>JSON_parse\<close>, with \<open>None\<close> for a \<^verbatim>\<open>SyntaxError\<close>;
  \<open>JSON_stringify\<close>; \<open>StringToNumber\<close>, with \<open>None\<close> for \<^verbatim>\<open>NaN\<close>; \<open>NumberToString\<close> for
  the exponent form of a large number), and so is every answer of the platform classes: a
  field of type \<open>bool\<close> that stands for an operation (\<open>mkdirs\<close>, \<open>write_file\<close>,
  \<open>new_template\<close>, \<open>mail_accepts\<close>) is \<open>False\<close> when the operation throws, and a field of
  option type is \<open>None\<close> when it throws (for \<open>list_files\<close>: when it returns \<^verbatim>\<open>null\<close>).
  \<open>mail_accepts c m\<close> is the call \<open>c\<close> that would leave the mail object in state \<open>m\<close>.
  \<open>mail_send m\<close> is \<^verbatim>\<open>mail.send()\<close> on a mail object in state \<open>m\<close>: it throws, or it returns
  a \<^verbatim>\<open>Status\<close>, of which the level is kept; ERROR says that the mail was not queued.
  \<open>mail_object\<close> is the state in which earlier calls have left the one mail object that
  the module \<^verbatim>\<open>utils/mail.js\<close> creates when it is loaded.
\<close>

record platform =
  JSON_parse :: "string \<Rightarrow> jsval option"
  JSON_stringify :: "jsval \<Rightarrow> string"
  StringToNumber :: "string \<Rightarrow> int option"
  NumberToString :: "int \<Rightarrow> string"
  now :: "nat \<times> nat \<times> nat"
  current_site :: string
  token_service :: "string \<Rightarrow> jsval option"
  data_service :: "string \<Rightarrow> string \<Rightarrow> Result option"
  dir_exists :: "string \<Rightarrow> bool"
  is_directory :: "string \<Rightarrow> bool"
  mkdirs :: "string \<Rightarrow> bool"
  write_file :: "string \<Rightarrow> string \<Rightarrow> bool"
  list_files :: "string \<Rightarrow> dir_entry list option"
  new_template :: "string option \<Rightarrow> bool"
  render_template :: "string option \<Rightarrow> (string \<times> jsval) list option \<Rightarrow> string option"
  mail_object :: message
  mail_accepts :: "mail_call \<Rightarrow> message \<Rightarrow> bool"
  mail_send :: "message \<Rightarrow> status_level option"

text \<open>
  What a run leaves behind, in the order it happened; \<open>sent\<close> are the mails that
  \<^verbatim>\<open>mail.send()\<close> has queued (it returned a \<^verbatim>\<open>Status\<close> of level OK).
\<close>

record effects =
  requests :: "string list"
  created :: "string list"
  written :: "(string \<times> string) list"
  renamed :: "(string \<times> string) list"
  sent :: "message list"
  logged :: "log_entry list"

definition no_effects :: effects where
  "no_effects = \<lparr> requests = [], created = [], written = [], renamed = [], sent = [], logged = [] \<rparr>"

definition logmsg :: "log_level \<Rightarrow> string \<Rightarrow> string list \<Rightarrow> effects \<Rightarrow> effects" where
  "logmsg lvl msg as st = st\<lparr> logged := logged st @ [(lvl, msg, as)] \<rparr>"

definition File_IMPEX :: string where
  "File_IMPEX = ''IMPEX''"

definition File_SEPARATOR :: string where
  "File_SEPARATOR = ''/''"

text \<open>
  String conversion (\<^verbatim>\<open>'' + v\<close>): an integer below \<^verbatim>\<open>1e21\<close> in absolute value prints its
  decimal digits, a larger one prints in exponent form, which is left to the platform
  (\<open>NumberToString\<close>); an array prints its elements joined by commas, with \<^verbatim>\<open>null\<close> and
  \<^verbatim>\<open>undefined\<close> elements empty; a plain object prints as \<^verbatim>\<open>[object Object]\<close>.
\<close>

fun js_to_string :: "platform \<Rightarrow> jsval \<Rightarrow> string" where
  "js_to_string p JUndefined = ''undefined''"
| "js_to_string p JNull = ''null''"
| "js_to_string p (JBool b) = (if b then ''true'' else ''false'')"
| "js_to_string p (JNum n) = (if \<bar>n\<bar> < 10 ^ 21 then show_int n else NumberToString p n)"
| "js_to_string p JNaN = ''NaN''"
| "js_to_string p (JStr s) = s"
| "js_to_string p (JArr xs) =
     join '','' (map (\<lambda>x. if x = JNull \<or> x = JUndefined then [] else js_to_string p x) xs)"
| "js_to_string p (JObj kvs) = ''[object Object]''"

text \<open>Numeric conversion, as \<^verbatim>\<open><\<close>, \<^verbatim>\<open>>\<close>, \<^verbatim>\<open>%\<close> and \<^verbatim>\<open>Math.max\<close> apply it; \<open>None\<close> is \<^verbatim>\<open>NaN\<close>.\<close>

fun to_number :: "platform \<Rightarrow> jsval \<Rightarrow> int option" where
  "to_number p JUndefined = None"
| "to_number p JNull = Some 0"
| "to_number p (JBool b) = Some (if b then 1 else 0)"
| "to_number p (JNum n) = Some n"
| "to_number p JNaN = None"
| "to_number p (JStr s) = StringToNumber p s"
| "to_number p (JArr xs) = StringToNumber p (js_to_string p (JArr xs))"
| "to_number p (JObj kvs) = None"

text \<open>
  \<^verbatim>\<open>'' + now.getFullYear() + ('0' + (now.getMonth() + 1)).slice(-2) + ('0' + now.getDate()).slice(-2)\<close>
\<close>

definition slice_last2 :: "string \<Rightarrow> string" where
  "slice_last2 s = drop (length s - 2) s"

fun formattedDate :: "nat \<times> nat \<times> nat \<Rightarrow> string" where
  "formattedDate (fullYear, month, date) =
     show_nat fullYear @ slice_last2 (''0'' @ show_nat (month + 1)) @ slice_last2 (''0'' @ show_nat date)"

section \<open>OCAPIServices.js\<close>

text \<open>
  \<open>getToken\<close>: a missing service name throws inside the \<^verbatim>\<open>try\<close>, as does a failure of the
  service; both give \<^verbatim>\<open>null\<close>. Otherwise the result is \<^verbatim>\<open>result.object\<close>.
\<close>

definition getToken :: "platform \<Rightarrow> string option \<Rightarrow> jsval" where
  "getToken p serviceName =
     (case serviceName of
        None \<Rightarrow> JNull
      | Some n \<Rightarrow>
          if n = [] then JNull
          else (case token_service p n of None \<Rightarrow> JNull | Some obj \<Rightarrow> obj))"

text \<open>
  \<open>callDataOcapi\<close>: the result of the call, or \<^verbatim>\<open>null\<close> when creating or calling the service
  threw (\<open>result\<close> is still \<^verbatim>\<open>null\<close> then). The request carries the header
  \<^verbatim>\<open>Authorization: Bearer <token>\<close>. The module's own log lines are left out.
\<close>

definition callDataOcapi :: "platform \<Rightarrow> string \<Rightarrow> jsval \<Rightarrow> Result option" where
  "callDataOcapi p URL token = data_service p URL (''Bearer'' @ '' '' @ js_to_string p token)"

section \<open>CartridgePathComparisonReport.js: the job step\<close>

text \<open>Truthiness of a job parameter that is a string or absent.\<close>

definition truthy_param :: "string option \<Rightarrow> bool" where
  "truthy_param v = (case v of None \<Rightarrow> False | Some s \<Rightarrow> s \<noteq> [])"

text \<open>\<^verbatim>\<open>str.replace(/'/g, '"')\<close>\<close>

definition replace_quotes :: "string \<Rightarrow> string" where
  "replace_quotes str = map (\<lambda>c. if c = CHR 0x27 then CHR 0x22 else c) str"

definition safeParseArray :: "platform \<Rightarrow> string \<Rightarrow> effects \<Rightarrow> jsval \<times> effects" where
  "safeParseArray p str st =
     (case JSON_parse p (replace_quotes str) of
        Some v \<Rightarrow> (v, st)
      | None \<Rightarrow> (JArr [], logmsg LogWarn ''Failed to parse hostInstances: {0}'' [] st))"

text \<open>
  \<open>normalizeCartridges\<close> on whatever \<^verbatim>\<open>response.object.cartridges\<close> is: only a string has
  a \<^verbatim>\<open>split\<close> method, so the call raises on anything else.
\<close>

fun normalizeCartridges_of :: "jsval \<Rightarrow> js_error + string list" where
  "normalizeCartridges_of (JStr s) = Inr (normalizeCartridges s)"
| "normalizeCartridges_of v = Inl TypeError"

text \<open>
  What \<open>fetchCartridges\<close> returns: the normalised list, or, on a failed fetch, the object
  \<^verbatim>\<open>new Status(Status.ERROR, 'ERROR', 'Failed to fetch cartridges.')\<close>.
\<close>

datatype fetched = CartridgeList "string list" | StatusObject Status

definition fetchCartridges ::
  "platform \<Rightarrow> jsval \<Rightarrow> string \<Rightarrow> string \<Rightarrow> jsval \<Rightarrow> effects \<Rightarrow> (js_error + fetched) \<times> effects" where
  "fetchCartridges p host siteId ocapiVersion token st =
     (let URL = ''https://'' @ js_to_string p host @ ''/s/-/dw/data/'' @ ocapiVersion @ ''/sites/'' @ siteId;
          response = callDataOcapi p URL token;
          st1 = st\<lparr> requests := requests st @ [URL] \<rparr>;
          failed = (Inr (StatusObject (Status ERROR (Some ''ERROR'') (Some ''Failed to fetch cartridges.''))),
                    logmsg LogError ''Failed to get cartridges from host {0} for site {1}''
                      [js_to_string p host, siteId] st1)
      in case response of
           None \<Rightarrow> (Inl TypeError, st1)
         | Some r \<Rightarrow>
             if \<not> ok r \<or> \<not> truthy (object r) then failed
             else (case js_get (object r) ''cartridges'' of
                     Inl e \<Rightarrow> (Inl e, st1)
                   | Inr cartridges \<Rightarrow>
                       if \<not> truthy cartridges then failed
                       else (case normalizeCartridges_of cartridges of
                               Inl e \<Rightarrow> (Inl e, st1)
                             | Inr list \<Rightarrow> (Inr (CartridgeList list), st1))))"

text \<open>
  \<^verbatim>\<open>if (cartridges1 && cartridges2)\<close>: an array is truthy, empty or not, and so is a
  \<^verbatim>\<open>Status\<close> object.
\<close>

fun truthy_fetched :: "fetched \<Rightarrow> bool" where
  "truthy_fetched (CartridgeList xs) = True"
| "truthy_fetched (StatusObject s) = True"

text \<open>
  The call \<^verbatim>\<open>compareCartridges(cartridges1, cartridges2)\<close> on what was fetched. A \<^verbatim>\<open>Status\<close>
  object is not iterable and has no \<^verbatim>\<open>filter\<close> method: \<^verbatim>\<open>new Set(list)\<close> and
  \<^verbatim>\<open>list.filter(...)\<close> raise on it.
\<close>

fun call_compareCartridges :: "fetched \<Rightarrow> fetched \<Rightarrow> js_error + DiffResult" where
  "call_compareCartridges (CartridgeList listA) (CartridgeList listB) = Inr (compareCartridges listA listB)"
| "call_compareCartridges a b = Inl TypeError"

text \<open>\<^verbatim>\<open>{ hostInstance: host, cartridgediff: diff }\<close>\<close>

definition report_element :: "jsval \<Rightarrow> string list \<Rightarrow> jsval" where
  "report_element host diff = JObj [(''hostInstance'', host), (''cartridgediff'', JArr (map JStr diff))]"

text \<open>\<^verbatim>\<open>{ siteId: siteId, elementsToReport: [...] }\<close>\<close>

definition structuredDiff :: "string \<Rightarrow> jsval list \<Rightarrow> jsval" where
  "structuredDiff siteId elems = JObj [(''siteId'', JStr siteId), (''elementsToReport'', JArr elems)]"

text \<open>The loop test \<^verbatim>\<open>j < hosts.length\<close>.\<close>

definition index_below :: "platform \<Rightarrow> nat \<Rightarrow> jsval \<Rightarrow> bool" where
  "index_below p j len = (case to_number p len of None \<Rightarrow> False | Some n \<Rightarrow> int j < n)"

text \<open>
  One turn of the loop over the pairs, lines 123 to 143: the two elements it pushes, or none
  when it takes the \<^verbatim>\<open>else\<close> branch.
\<close>

definition compare_pair ::
  "platform \<Rightarrow> string \<Rightarrow> string \<Rightarrow> jsval \<Rightarrow> jsval \<Rightarrow> nat \<Rightarrow> effects \<Rightarrow> (js_error + jsval list) \<times> effects" where
  "compare_pair p siteId ocapiVersion token hosts j st =
     (case js_index hosts j of
        Inl e \<Rightarrow> (Inl e, st)
      | Inr host1 \<Rightarrow>
     (case js_index hosts (j + 1) of
        Inl e \<Rightarrow> (Inl e, st)
      | Inr host2 \<Rightarrow>
     (case fetchCartridges p host1 siteId ocapiVersion token st of
        (Inl e, st1) \<Rightarrow> (Inl e, st1)
      | (Inr cartridges1, st1) \<Rightarrow>
     (case fetchCartridges p host2 siteId ocapiVersion token st1 of
        (Inl e, st2) \<Rightarrow> (Inl e, st2)
      | (Inr cartridges2, st2) \<Rightarrow>
          if truthy_fetched cartridges1 \<and> truthy_fetched cartridges2 then
            (case call_compareCartridges cartridges1 cartridges2 of
               Inl e \<Rightarrow> (Inl e, st2)
             | Inr diff \<Rightarrow>
                 (Inr [report_element host1 (onlyInA diff), report_element host2 (onlyInB diff)], st2))
          else
            (Inr [], logmsg LogWarn ''Skipping host pair due to fetch error: {0}, {1}''
                       [js_to_string p host1, js_to_string p host2] st2)))))"

text \<open>\<^verbatim>\<open>for (var j = 0; j < hosts.length; j += 2) { ... }\<close>, from index \<open>j\<close> on.\<close>

function compare_pairs ::
  "platform \<Rightarrow> string \<Rightarrow> string \<Rightarrow> jsval \<Rightarrow> jsval \<Rightarrow> nat \<Rightarrow> jsval list \<Rightarrow> effects
     \<Rightarrow> (js_error + jsval list) \<times> effects" where
  "compare_pairs p siteId ocapiVersion token hosts j elems st =
     (case js_get hosts ''length'' of
        Inl e \<Rightarrow> (Inl e, st)
      | Inr len \<Rightarrow>
          if index_below p j len then
            (case compare_pair p siteId ocapiVersion token hosts j st of
               (Inl e, st') \<Rightarrow> (Inl e, st')
             | (Inr new, st') \<Rightarrow> compare_pairs p siteId ocapiVersion token hosts (j + 2) (elems @ new) st')
          else (Inr elems, st))"
  by pat_completeness auto
termination
proof (relation "measure (\<lambda>(p, siteId, ocapiVersion, token, hosts, j, elems, st).
    (case js_get hosts ''length'' of
       Inl e \<Rightarrow> 0
     | Inr len \<Rightarrow> (case to_number p len of None \<Rightarrow> 0 | Some n \<Rightarrow> nat n - j)))")
  show "wf (measure (\<lambda>(p, siteId, ocapiVersion, token, hosts, j, elems, st).
    (case js_get hosts ''length'' of
       Inl e \<Rightarrow> 0
     | Inr len \<Rightarrow> (case to_number p len of None \<Rightarrow> 0 | Some n \<Rightarrow> nat n - j))))"
    by simp
qed (auto simp: index_below_def split: option.splits)

declare compare_pairs.simps [simp del]

text \<open>The parameter bag of the step.\<close>

record args =
  hostInstances :: "string option"
  ocapiVersion :: "string option"
  serviceName :: "string option"
  workingfolder :: "string option"
  disableStep :: bool

text \<open>
  Lines 146 to 168: the \<^verbatim>\<open>try\<close> block that writes the report, with its \<^verbatim>\<open>catch\<close>. An
  absent \<^verbatim>\<open>workingfolder\<close> joins as the empty string.
\<close>

definition report_dir :: "args \<Rightarrow> string" where
  "report_dir a =
     join File_SEPARATOR [File_IMPEX, ''src'', (case workingfolder a of None \<Rightarrow> [] | Some w \<Rightarrow> w)]"

definition report_path :: "platform \<Rightarrow> args \<Rightarrow> string \<Rightarrow> string" where
  "report_path p a siteId =
     report_dir a @ File_SEPARATOR
       @ (''cartridge_difference_'' @ formattedDate (now p) @ ''_'' @ siteId @ ''.json'')"

definition write_report :: "platform \<Rightarrow> args \<Rightarrow> string \<Rightarrow> jsval \<Rightarrow> effects \<Rightarrow> effects" where
  "write_report p a siteId diff st =
     (let baseDirPath = report_dir a;
          caught = logmsg LogError ''Error writing diff for site {0}: {1}'' [siteId]
      in if \<not> dir_exists p baseDirPath \<and> \<not> mkdirs p baseDirPath then caught st
         else
           (let st1 = (if \<not> dir_exists p baseDirPath
                       then st\<lparr> created := created st @ [baseDirPath] \<rparr> else st);
                path = report_path p a siteId;
                content = JSON_stringify p diff
            in if \<not> write_file p path content then caught st1
               else logmsg LogInfo ''Differences found. JSON written file: {0}'' [path]
                      (st1\<lparr> written := written st1 @ [(path, content)] \<rparr>)))"

text \<open>
  Lines 91 to 144 of \<open>execute\<close>: the checks, the token and the loop. The outcome is an early
  \<^verbatim>\<open>return\<close> with a status, or the report to be written.
\<close>

datatype 'a flow = Return Status | Continue 'a

definition execute_compare ::
  "platform \<Rightarrow> args option \<Rightarrow> effects \<Rightarrow> (js_error + jsval flow) \<times> effects" where
  "execute_compare p args st =
     (case args of
        None \<Rightarrow> (Inr (Return (Status ERROR (Some ''ERROR'') (Some ''Missing required arguments.''))), st)
      | Some a \<Rightarrow>
     if \<not> truthy_param (hostInstances a) \<or> \<not> truthy_param (ocapiVersion a) then
       (Inr (Return (Status ERROR (Some ''ERROR'') (Some ''Missing required arguments.''))), st)
     else if disableStep a then
       (Inr (Return (Status OK (Some ''DISABLED'') (Some ''Step disabled.''))), st)
     else
       (case safeParseArray p (the (hostInstances a)) st of (hosts, st1) \<Rightarrow>
       (case js_get hosts ''length'' of
          Inl e \<Rightarrow> (Inl e, st1)
        | Inr len \<Rightarrow>
       if (case to_number p len of None \<Rightarrow> False | Some n \<Rightarrow> n < 2)
          \<or> (case to_number p len of None \<Rightarrow> True | Some n \<Rightarrow> n mod 2 \<noteq> 0) then
         (Inr (Return (Status ERROR (Some ''ERROR'')
            (Some ''hostInstances must contain even number of hosts to form pairs.''))), st1)
       else
         (let token = getToken p (serviceName a) in
          if \<not> truthy token then
            (Inr (Return (Status ERROR (Some ''ERROR'') (Some ''OCAPI token failed.''))),
             logmsg LogError ''Failed to fetch OCAPI token'' [] st1)
          else
            (let siteId = current_site p;
                 st2 = logmsg LogInfo ''Comparing cartridges for site: {0}'' [siteId] st1
             in case compare_pairs p siteId (the (ocapiVersion a)) token hosts 0 [] st2 of
                  (Inl e, st3) \<Rightarrow> (Inl e, st3)
                | (Inr elems, st3) \<Rightarrow> (Inr (Continue (structuredDiff siteId elems)), st3))))))"

definition CartridgePathComparisonReport_execute ::
  "platform \<Rightarrow> args option \<Rightarrow> (js_error + Status) \<times> effects" where
  "CartridgePathComparisonReport_execute p args =
     (case execute_compare p args no_effects of
        (Inl e, st) \<Rightarrow> (Inl e, st)
      | (Inr (Return status), st) \<Rightarrow> (Inr status, st)
      | (Inr (Continue diff), st) \<Rightarrow>
          (Inr (Status OK (Some ''OK'') (Some ''Cartridge comparison completed.'')),
           write_report p (the args) (current_site p) diff st))"

section \<open>utils/mail.js\<close>

text \<open>
  What \<^verbatim>\<open>Object.keys(contextObject).forEach(function (key) { context.put(key, contextObject[key]); })\<close>
  puts into the map: the own enumerable properties of the value.
\<close>

fun context_of :: "jsval \<Rightarrow> (string \<times> jsval) list" where
  "context_of (JObj kvs) = map (\<lambda>key. (key, the (map_of kvs key))) (remdups (map fst kvs))"
| "context_of (JArr xs) = zip (map show_nat [0..<length xs]) xs"
| "context_of (JStr s) = zip (map show_nat [0..<length s]) (map (\<lambda>c. JStr [c]) s)"
| "context_of v = []"

text \<open>
  The argument of \<^verbatim>\<open>template.render\<close>: none when
  \<^verbatim>\<open>!contextObject || Object.keys(contextObject).length === 0\<close>.
\<close>

definition template_context :: "jsval \<Rightarrow> (string \<times> jsval) list option" where
  "template_context contextObject =
     (if \<not> truthy contextObject \<or> length (context_of contextObject) = 0 then None
      else Some (context_of contextObject))"

text \<open>
  Lines 41 to 46: the calls on the module's mail object, each of which may throw; the
  outcome is the level of the \<^verbatim>\<open>Status\<close> that \<^verbatim>\<open>mail.send()\<close> returns, with the state the
  mail object is left in.
\<close>

definition mail_calls ::
  "platform \<Rightarrow> string list \<Rightarrow> string option \<Rightarrow> string option \<Rightarrow> string option \<Rightarrow> string \<Rightarrow> message
     \<Rightarrow> (js_error + status_level) \<times> message" where
  "mail_calls p to sender cc subject renderedHtml m0 =
     (let m1 = m0\<lparr> mail_to := mail_to m0 @ to \<rparr> in
      if \<not> mail_accepts p AddTo m1 then (Inl PlatformError, m0) else
     (let m2 = m1\<lparr> mail_from := sender \<rparr> in
      if \<not> mail_accepts p SetFrom m2 then (Inl PlatformError, m1) else
     (let m3 = m2\<lparr> mail_cc := mail_cc m2 @ [cc] \<rparr> in
      if \<not> mail_accepts p AddCc m3 then (Inl PlatformError, m2) else
     (let m4 = m3\<lparr> mail_subject := subject \<rparr> in
      if \<not> mail_accepts p SetSubject m4 then (Inl PlatformError, m3) else
     (let m5 = m4\<lparr> mail_content := Some renderedHtml \<rparr> in
      if \<not> mail_accepts p SetContent m5 then (Inl PlatformError, m4) else
     (case mail_send p m5 of
        None \<Rightarrow> (Inl PlatformError, m5)
      | Some status \<Rightarrow> (Inr status, m5)))))))"

text \<open>
  The body of the \<^verbatim>\<open>try\<close> block of \<open>sendMail\<close>. Creating the template is one answer of
  the platform (\<open>new_template\<close>); rendering it and reading \<^verbatim>\<open>renderedResult.text\<close> are
  another (\<open>render_template\<close>). The \<^verbatim>\<open>Status\<close> that \<^verbatim>\<open>mail.send()\<close> returns is not looked
  at: the success is logged and \<^verbatim>\<open>true\<close> returned whatever it is.
\<close>

definition sendMail_try ::
  "platform \<Rightarrow> string option \<Rightarrow> string list \<Rightarrow> string option \<Rightarrow> string option \<Rightarrow> string option
     \<Rightarrow> jsval \<Rightarrow> effects \<Rightarrow> (js_error + bool) \<times> effects" where
  "sendMail_try p sender to cc subject templatePath contextObject st =
     (if \<not> new_template p templatePath then (Inl PlatformError, st)
      else
     (let st1 = (if template_context contextObject = None
                 then logmsg LogWarn ''No context data provided for email template: {0}''
                        [case templatePath of None \<Rightarrow> ''undefined'' | Some t \<Rightarrow> t] st
                 else st)
      in case render_template p templatePath (template_context contextObject) of
           None \<Rightarrow> (Inl PlatformError, st1)
         | Some renderedHtml \<Rightarrow>
             (case mail_calls p to sender cc subject renderedHtml (mail_object p) of
                (Inl e, m) \<Rightarrow> (Inl e, st1)
              | (Inr status, m) \<Rightarrow>
                  (Inr True,
                   logmsg LogInfo (''Email successfully sent to: '' @ join '','' to) []
                     (if status = OK then st1\<lparr> sent := sent st1 @ [m] \<rparr> else st1)))))"

text \<open>\<open>sendMail\<close>: the \<^verbatim>\<open>try\<close> block with its \<^verbatim>\<open>catch\<close>, which logs and returns \<^verbatim>\<open>false\<close>.\<close>

definition sendMail ::
  "platform \<Rightarrow> string option \<Rightarrow> string list \<Rightarrow> string option \<Rightarrow> string option \<Rightarrow> string option
     \<Rightarrow> jsval \<Rightarrow> effects \<Rightarrow> (js_error + bool) \<times> effects" where
  "sendMail p sender to cc subject templatePath contextObject st =
     (case sendMail_try p sender to cc subject templatePath contextObject st of
        (Inl e, st') \<Rightarrow> (Inr False, logmsg LogError ''Failed to send template email: {0}'' [] st')
      | (Inr sentOk, st') \<Rightarrow> (Inr sentOk, st'))"

section \<open>SendSiteCartridgePathDifference.js\<close>

record pdict =
  emailTo :: "string option"
  emailFrom :: "string option"
  emailCC :: "string option"
  emailSubject :: "string option"
  emailSubjectWithoutDiff :: "string option"
  template :: "string option"
  pdict_workingfolder :: "string option"

text \<open>\<^verbatim>\<open>s.startsWith(x)\<close>, \<^verbatim>\<open>s.endsWith(x)\<close> and \<^verbatim>\<open>s.indexOf(x)\<close>.\<close>

definition startsWith :: "string \<Rightarrow> string \<Rightarrow> bool" where
  "startsWith s x = prefix x s"

definition endsWith :: "string \<Rightarrow> string \<Rightarrow> bool" where
  "endsWith s x = suffix x s"

fun indexOf_from :: "nat \<Rightarrow> string \<Rightarrow> string \<Rightarrow> int" where
  "indexOf_from i [] x = (if x = [] then int i else - 1)"
| "indexOf_from i (c # cs) x = (if prefix x (c # cs) then int i else indexOf_from (i + 1) cs x)"

definition indexOf :: "string \<Rightarrow> string \<Rightarrow> int" where
  "indexOf s x = indexOf_from 0 s x"

text \<open>
  Lines 50 to 77: the loop that reads and parses the files of the day. A file that cannot
  be read throws out of the loop; a file that does not parse is logged and passed over.
\<close>

fun read_reports ::
  "platform \<Rightarrow> string \<Rightarrow> dir_entry list \<Rightarrow> jsval list \<Rightarrow> effects \<Rightarrow> (js_error + jsval list) \<times> effects" where
  "read_reports p formatted [] combinedResults st = (Inr combinedResults, st)"
| "read_reports p formatted (f # files) combinedResults st =
     (let fileName = file_name f in
      if startsWith fileName (''cartridge_difference_'' @ formatted) \<and> endsWith fileName ''.json'' then
        (let st1 = logmsg LogDebug (''Processing file: '' @ fileName) [] st in
         case file_lines f of
           None \<Rightarrow> (Inl PlatformError, st1)
         | Some ls \<Rightarrow>
             (let content = concat ls in
              case JSON_parse p content of
                Some data \<Rightarrow>
                  read_reports p formatted files (combinedResults @ [data])
                    (logmsg LogDebug (''Parsed JSON from file: '' @ fileName) [] st1)
              | None \<Rightarrow>
                  read_reports p formatted files combinedResults
                    (logmsg LogError (''Content snippet: '' @ take 200 content) []
                      (logmsg LogError ''Error: {0}'' []
                        (logmsg LogError (''Failed to parse JSON content from file: '' @ fileName) [] st1)))))
      else
        read_reports p formatted files combinedResults
          (logmsg LogDebug (''Skipping file (pattern mismatch): '' @ fileName) [] st))"

text \<open>
  \<^verbatim>\<open>e && e.cartridgediff ? e.cartridgediff.length : 0\<close> for \<open>e\<close> one of
  \<^verbatim>\<open>siteData.elementsToReport[0]\<close>, \<^verbatim>\<open>siteData.elementsToReport[1]\<close>.
\<close>

definition cartridgediff_length :: "jsval \<Rightarrow> js_error + jsval" where
  "cartridgediff_length e =
     (if \<not> truthy e then Inr (JNum 0)
      else (case js_get e ''cartridgediff'' of
              Inl err \<Rightarrow> Inl err
            | Inr d \<Rightarrow> if truthy d then js_get d ''length'' else Inr (JNum 0)))"

definition Math_max :: "platform \<Rightarrow> jsval \<Rightarrow> jsval \<Rightarrow> jsval" where
  "Math_max p a b =
     (case to_number p a of
        None \<Rightarrow> JNaN
      | Some x \<Rightarrow> (case to_number p b of None \<Rightarrow> JNaN | Some y \<Rightarrow> JNum (max x y)))"

text \<open>
  Assignment \<^verbatim>\<open>v.key = x\<close> in strict mode: it raises on \<^verbatim>\<open>null\<close>, \<^verbatim>\<open>undefined\<close> and on a
  primitive value; on an object it replaces the property or adds it last. On an array it
  adds a named property, which none of the later reads looks at.
\<close>

fun obj_put :: "(string \<times> jsval) list \<Rightarrow> string \<Rightarrow> jsval \<Rightarrow> (string \<times> jsval) list" where
  "obj_put [] key x = [(key, x)]"
| "obj_put ((k, v) # kvs) key x = (if k = key then (k, x) # kvs else (k, v) # obj_put kvs key x)"

fun js_set :: "jsval \<Rightarrow> string \<Rightarrow> jsval \<Rightarrow> js_error + jsval" where
  "js_set (JObj kvs) key x = Inr (JObj (obj_put kvs key x))"
| "js_set (JArr xs) key x = Inr (JArr xs)"
| "js_set v key x = Inl TypeError"

text \<open>Lines 86 to 88, the callback of \<^verbatim>\<open>combinedResults.forEach\<close>: the report with its \<^verbatim>\<open>maxLen\<close>.\<close>

definition add_maxLen :: "platform \<Rightarrow> jsval \<Rightarrow> js_error + jsval" where
  "add_maxLen p siteData =
     (case js_get siteData ''elementsToReport'' of
        Inl e \<Rightarrow> Inl e
      | Inr elems \<Rightarrow>
     (case js_index elems 0 of
        Inl e \<Rightarrow> Inl e
      | Inr e0 \<Rightarrow>
     (case cartridgediff_length e0 of
        Inl e \<Rightarrow> Inl e
      | Inr lenA \<Rightarrow>
     (case js_index elems 1 of
        Inl e \<Rightarrow> Inl e
      | Inr e1 \<Rightarrow>
     (case cartridgediff_length e1 of
        Inl e \<Rightarrow> Inl e
      | Inr lenB \<Rightarrow> js_set siteData ''maxLen'' (Math_max p lenA lenB))))))"

text \<open>
  \<^verbatim>\<open>xs.forEach(f)\<close> with a callback that changes its argument, and \<^verbatim>\<open>xs.some(f)\<close>: both
  stop at the first exception, and \<^verbatim>\<open>some\<close> also at the first element that satisfies \<open>f\<close>.
\<close>

fun Array_forEach :: "(jsval \<Rightarrow> js_error + jsval) \<Rightarrow> jsval list \<Rightarrow> js_error + jsval list" where
  "Array_forEach f [] = Inr []"
| "Array_forEach f (x # xs) =
     (case f x of
        Inl e \<Rightarrow> Inl e
      | Inr x' \<Rightarrow> (case Array_forEach f xs of Inl e \<Rightarrow> Inl e | Inr xs' \<Rightarrow> Inr (x' # xs')))"

fun Array_some :: "(jsval \<Rightarrow> js_error + bool) \<Rightarrow> jsval list \<Rightarrow> js_error + bool" where
  "Array_some f [] = Inr False"
| "Array_some f (x # xs) =
     (case f x of
        Inl e \<Rightarrow> Inl e
      | Inr b \<Rightarrow> if b then Inr True else Array_some f xs)"

text \<open>\<^verbatim>\<open>v.some(f)\<close> on a parsed value: only an array has the method.\<close>

fun call_some :: "jsval \<Rightarrow> (jsval \<Rightarrow> js_error + bool) \<Rightarrow> js_error + bool" where
  "call_some (JArr xs) f = Array_some f xs"
| "call_some v f = Inl TypeError"

text \<open>\<^verbatim>\<open>report.cartridgediff && report.cartridgediff.length > 0\<close>, as a condition.\<close>

definition has_cartridgediff :: "platform \<Rightarrow> jsval \<Rightarrow> js_error + bool" where
  "has_cartridgediff p report =
     (case js_get report ''cartridgediff'' of
        Inl e \<Rightarrow> Inl e
      | Inr d \<Rightarrow>
          if \<not> truthy d then Inr False
          else (case js_get d ''length'' of
                  Inl e \<Rightarrow> Inl e
                | Inr len \<Rightarrow> Inr (case to_number p len of None \<Rightarrow> False | Some n \<Rightarrow> n > 0)))"

text \<open>Lines 92 to 96: the callback of the outer \<^verbatim>\<open>some\<close>, and \<open>hasDiffData\<close>.\<close>

definition site_has_diff :: "platform \<Rightarrow> jsval \<Rightarrow> js_error + bool" where
  "site_has_diff p siteData =
     (case js_get siteData ''elementsToReport'' of
        Inl e \<Rightarrow> Inl e
      | Inr elems \<Rightarrow> call_some elems (has_cartridgediff p))"

definition hasDiffData :: "platform \<Rightarrow> jsval list \<Rightarrow> js_error + bool" where
  "hasDiffData p combinedResults = Array_some (site_has_diff p) combinedResults"

text \<open>Lines 127 to 133: the files of the day are renamed into the archive folder.\<close>

fun archive_files :: "string \<Rightarrow> string \<Rightarrow> dir_entry list \<Rightarrow> effects \<Rightarrow> effects" where
  "archive_files formatted archivePath [] st = st"
| "archive_files formatted archivePath (jsonFile # files) st =
     archive_files formatted archivePath files
       (if indexOf (file_name jsonFile) (''cartridge_difference_'' @ formatted) = 0
           \<and> endsWith (file_name jsonFile) ''.json''
        then st\<lparr> renamed := renamed st
               @ [(file_name jsonFile, archivePath @ File_SEPARATOR @ file_name jsonFile)] \<rparr>
        else st)"

text \<open>
  Lines 106 to 133, the body of the \<^verbatim>\<open>try\<close> block: the mail, then the archive. The value
  that \<open>sendMail\<close> returns is not looked at. \<^verbatim>\<open>pdict.emailTo.split(',')\<close> raises when the
  parameter is absent.
\<close>

definition send_and_archive ::
  "platform \<Rightarrow> pdict \<Rightarrow> string \<Rightarrow> dir_entry list \<Rightarrow> string \<Rightarrow> jsval list \<Rightarrow> bool \<Rightarrow> effects
     \<Rightarrow> (js_error + unit) \<times> effects" where
  "send_and_archive p pd workingFolderPath files formatted combinedResults hasDiff st =
     (let st1 = logmsg LogInfo ''Sending cartridge comparison report via email'' [] st;
          subject = (if hasDiff then emailSubject pd else emailSubjectWithoutDiff pd);
          templateToUse = (if hasDiff then template pd else Some ''mail/utilitiesDifferenceNotFound.isml'')
      in case emailTo pd of
           None \<Rightarrow> (Inl TypeError, st1)
         | Some to \<Rightarrow>
        (case sendMail p (emailFrom pd) (split CHR '','' to) (emailCC pd) subject templateToUse
                (if hasDiff then JObj [(''combinedResults'', JArr combinedResults)] else JStr [])
                st1 of
           (Inl e, st2) \<Rightarrow> (Inl e, st2)
         | (Inr sentOk, st2) \<Rightarrow>
             (let archivePath = workingFolderPath @ File_SEPARATOR @ ''archive'' in
              if \<not> dir_exists p archivePath \<and> \<not> mkdirs p archivePath then (Inl PlatformError, st2)
              else
                (Inr (),
                 archive_files formatted archivePath files
                   (if \<not> dir_exists p archivePath
                    then st2\<lparr> created := created st2 @ [archivePath] \<rparr> else st2)))))"

definition working_folder :: "pdict \<Rightarrow> string" where
  "working_folder pd =
     join File_SEPARATOR [File_IMPEX, ''src'', (case pdict_workingfolder pd of None \<Rightarrow> [] | Some w \<Rightarrow> w)]"

text \<open>Lines 84 to 96: the annotation, then the flag.\<close>

definition aggregate :: "platform \<Rightarrow> jsval list \<Rightarrow> js_error + (jsval list \<times> bool)" where
  "aggregate p combinedResults =
     (case Array_forEach (add_maxLen p) combinedResults of
        Inl e \<Rightarrow> Inl e
      | Inr annotated \<Rightarrow>
          (case hasDiffData p annotated of
             Inl e \<Rightarrow> Inl e
           | Inr hasDiff \<Rightarrow> Inr (annotated, hasDiff)))"

definition SendSiteCartridgePathDifference_execute ::
  "platform \<Rightarrow> pdict \<Rightarrow> (js_error + Status) \<times> effects" where
  "SendSiteCartridgePathDifference_execute p pd =
     (let st0 = logmsg LogInfo ''Starting Site Cartridge Path Comparison Email Job'' [] no_effects;
          workingFolderPath = working_folder pd
      in
      if \<not> dir_exists p workingFolderPath \<or> \<not> is_directory p workingFolderPath then
        (Inr (Status OK None None),
         logmsg LogWarn (''Cartridge results folder does not exist or is not a directory: '' @ workingFolderPath) [] st0)
      else
        (case list_files p workingFolderPath of
           None \<Rightarrow>
             (Inr (Status OK None None),
              logmsg LogInfo (''No files found in working folder: '' @ workingFolderPath) [] st0)
         | Some files \<Rightarrow>
        if length files = 0 then
          (Inr (Status OK None None),
           logmsg LogInfo (''No files found in working folder: '' @ workingFolderPath) [] st0)
        else
          (let formatted = formattedDate (now p);
               st1 = logmsg LogInfo (''Looking for cartridge diff files matching date: '' @ formatted) [] st0
           in case read_reports p formatted files [] st1 of
                (Inl e, st2) \<Rightarrow> (Inl e, st2)
              | (Inr combinedResults, st2) \<Rightarrow>
             if length combinedResults = 0 then
               (Inr (Status OK None None),
                logmsg LogInfo ''No valid cartridge diff JSON data found to process.'' [] st2)
             else
               (case aggregate p combinedResults of
                  Inl e \<Rightarrow> (Inl e, st2)
                | Inr (annotated, hasDiff) \<Rightarrow>
                    (let st3 = (if \<not> hasDiff
                                then logmsg LogInfo ''No cartridge path differences found in audit data.'' [] st2
                                else st2)
                     in case send_and_archive p pd workingFolderPath files formatted annotated hasDiff st3 of
                          (Inl e, st4) \<Rightarrow>
                            (Inr (Status ERROR None None),
                             logmsg LogError ''Failed to send audit email: {0}'' [] st4)
                        | (Inr u, st4) \<Rightarrow> (Inr (Status OK None None), st4))))))"

section \<open>The shape of a report\<close>

text \<open>
  The report that the comparison step writes is an object whose \<^verbatim>\<open>elementsToReport\<close> is an
  array of objects, each with an array \<^verbatim>\<open>cartridgediff\<close>. \<open>elements_of\<close> and
  \<open>cartridgediff_of\<close> read these arrays from a value that has them, and \<open>is_SiteReport\<close>
  says that a parsed value has this shape.
\<close>

fun elements_of :: "jsval \<Rightarrow> jsval list option" where
  "elements_of (JObj kvs) =
     (case map_of kvs ''elementsToReport'' of Some (JArr es) \<Rightarrow> Some es | _ \<Rightarrow> None)"
| "elements_of v = None"

fun cartridgediff_of :: "jsval \<Rightarrow> jsval list option" where
  "cartridgediff_of (JObj kvs) =
     (case map_of kvs ''cartridgediff'' of Some (JArr d) \<Rightarrow> Some d | _ \<Rightarrow> None)"
| "cartridgediff_of v = None"

definition is_SiteReport :: "jsval \<Rightarrow> bool" where
  "is_SiteReport r =
     (case elements_of r of
        None \<Rightarrow> False
      | Some es \<Rightarrow> list_all (\<lambda>e. cartridgediff_of e \<noteq> None) es)"

definition diffs_of :: "jsval \<Rightarrow> jsval list list" where
  "diffs_of r = (case elements_of r of None \<Rightarrow> [] | Some es \<Rightarrow> map (\<lambda>e. the (cartridgediff_of e)) es)"

section \<open>Example runs\<close>

text \<open>
  A platform for the examples: the fifth of January 2024 on site \<open>RefArch\<close>; host \<open>h1\<close> has
  the cartridge path \<open>a:b:c\<close> and every other host \<open>a:b\<close>; the working folder holds one report
  of the day; every operation succeeds. JSON texts are written with single quotes and
  passed through \<open>replace_quotes\<close>.
\<close>

definition report_text :: string where
  "report_text = replace_quotes
     ''{'siteId':'RefArch','elementsToReport':[{'hostInstance':'h1','cartridgediff':['c']},{'hostInstance':'h2','cartridgediff':[]}]}''"

definition report_value :: jsval where
  "report_value = structuredDiff ''RefArch'' [report_element (JStr ''h1'') [''c''], report_element (JStr ''h2'') []]"

definition example_parse :: "string \<Rightarrow> jsval option" where
  "example_parse text =
     (if text = replace_quotes ''['h1','h2']'' then Some (JArr [JStr ''h1'', JStr ''h2''])
      else if text = replace_quotes ''['h1']'' then Some (JArr [JStr ''h1''])
      else if text = report_text then Some report_value
      else if text = replace_quotes ''{'elementsToReport':5}'' then Some (JObj [(''elementsToReport'', JNum 5)])
      else if text = ''7'' then Some (JNum 7)
      else None)"

definition example_platform :: platform where
  "example_platform = \<lparr>
     JSON_parse = example_parse,
     JSON_stringify = (\<lambda>v. if v = report_value then report_text else ''?''),
     StringToNumber = (\<lambda>s. None),
     NumberToString = show_int,
     now = (2024, 0, 5),
     current_site = ''RefArch'',
     token_service = (\<lambda>n. Some (JStr ''t0k'')),
     data_service = (\<lambda>URL authorization.
        if URL = ''https://h1/s/-/dw/data/v23_2/sites/RefArch''
        then Some \<lparr> ok = True, object = JObj [(''cartridges'', JStr ''a:b:c'')] \<rparr>
        else Some \<lparr> ok = True, object = JObj [(''cartridges'', JStr ''a:b'')] \<rparr>),
     dir_exists = (\<lambda>d. True),
     is_directory = (\<lambda>d. True),
     mkdirs = (\<lambda>d. True),
     write_file = (\<lambda>f c. True),
     list_files = (\<lambda>d. if d = ''IMPEX/src/cartridges''
        then Some [\<lparr> file_name = ''cartridge_difference_20240105_RefArch.json'',
                     file_lines = Some [report_text] \<rparr>]
        else None),
     new_template = (\<lambda>t. True),
     render_template = (\<lambda>t c. Some ''<html/>''),
     mail_object = \<lparr> mail_to = [], mail_from = None, mail_cc = [], mail_subject = None,
                     mail_content = None \<rparr>,
     mail_accepts = (\<lambda>c m. True),
     mail_send = (\<lambda>m. Some OK) \<rparr>"

definition example_args :: args where
  "example_args = \<lparr> hostInstances = Some ''['h1','h2']'', ocapiVersion = Some ''v23_2'',
     serviceName = Some ''ocapi.auth'', workingfolder = Some ''cartridges'', disableStep = False \<rparr>"

definition example_pdict :: pdict where
  "example_pdict = \<lparr> emailTo = Some ''ops@example.com'', emailFrom = Some ''noreply@example.com'',
     emailCC = None, emailSubject = Some ''Cartridge differences'',
     emailSubjectWithoutDiff = Some ''No cartridge differences'',
     template = Some ''mail/cartridgeDifference.isml'', pdict_workingfolder = Some ''cartridges'' \<rparr>"

text \<open>The same platform, where the data service answers for host \<open>h1\<close> without the ok flag.\<close>

definition failing_fetch_platform :: platform where
  "failing_fetch_platform = example_platform\<lparr> data_service := (\<lambda>URL authorization.
        if URL = ''https://h1/s/-/dw/data/v23_2/sites/RefArch''
        then Some \<lparr> ok = False, object = JNull \<rparr>
        else Some \<lparr> ok = True, object = JObj [(''cartridges'', JStr ''a:b'')] \<rparr>) \<rparr>"

text \<open>The same platform, where writing a file throws.\<close>

definition failing_write_platform :: platform where
  "failing_write_platform = example_platform\<lparr> write_file := (\<lambda>f c. False) \<rparr>"

text \<open>The same platform, where sending a mail throws.\<close>

definition failing_mail_platform :: platform where
  "failing_mail_platform = example_platform\<lparr> mail_send := (\<lambda>m. None) \<rparr>"

text \<open>
  The same platform, where \<^verbatim>\<open>mail.send()\<close> does not throw but returns a \<^verbatim>\<open>Status\<close> of
  level ERROR: the mail is not queued.
\<close>

definition unqueued_mail_platform :: platform where
  "unqueued_mail_platform = example_platform\<lparr> mail_send := (\<lambda>m. Some ERROR) \<rparr>"

text \<open>
  The same platform, where the working folder holds a second file of the day, whose text
  is \<^verbatim>\<open>{"elementsToReport":5}\<close>.
\<close>

definition two_files_platform :: platform where
  "two_files_platform = example_platform\<lparr> list_files := (\<lambda>d. if d = ''IMPEX/src/cartridges''
        then Some [\<lparr> file_name = ''cartridge_difference_20240105_RefArch.json'',
                     file_lines = Some [report_text] \<rparr>,
                   \<lparr> file_name = ''cartridge_difference_20240105_Other.json'',
                     file_lines = Some [replace_quotes ''{'elementsToReport':5}''] \<rparr>]
        else None) \<rparr>"


text \<open>The example parameters with an odd host list, and the same with the step disabled.\<close>

definition odd_args :: args where
  "odd_args = example_args\<lparr> hostInstances := Some ''['h1']'' \<rparr>"

definition disabled_args :: args where
  "disabled_args = example_args\<lparr> hostInstances := Some ''['h1']'', disableStep := True \<rparr>"

section \<open>Properties of the helpers\<close>

lemma split_not_Nil: "split sep s \<noteq> []"
  by (induction s) (auto split: list.splits)

lemma join_Cons: "ys \<noteq> [] \<Longrightarrow> join sep (x # ys) = x @ sep @ join sep ys"
  by (cases ys) auto

lemma join_split: "join [sep] (split sep s) = s"
proof (induction s)
  case Nil
  show ?case by simp
next
  case (Cons c cs)
  show ?case
  proof (cases "c = sep")
    case True
    with Cons split_not_Nil [of sep cs] show ?thesis
      by (simp add: join_Cons)
  next
    case False
    obtain w ws where ws: "split sep cs = w # ws"
      using split_not_Nil [of sep cs] by (cases "split sep cs") auto
    have "join [sep] ((c # w) # ws) = c # join [sep] (w # ws)"
      by (cases ws) auto
    with False ws Cons show ?thesis by simp
  qed
qed

lemma split_no_sep: "g \<in> set (split sep s) \<Longrightarrow> sep \<notin> set g"
  by (induction s arbitrary: g) (auto split: list.splits if_splits)

lemma trim_decompose:
  "\<exists>pre post. s = pre @ trim s @ post \<and> list_all is_space pre \<and> list_all is_space post"
proof -
  let ?a = "takeWhile is_space s"
  let ?m = "dropWhile is_space s"
  let ?b = "takeWhile is_space (rev ?m)"
  have "?m = rev (dropWhile is_space (rev ?m)) @ rev ?b"
    by (metis rev_append rev_rev_ident takeWhile_dropWhile_id)
  then have "s = ?a @ trim s @ rev ?b"
    by (simp add: trim_def)
  moreover have "list_all is_space ?a"
    by (simp add: list_all_iff) (meson set_takeWhileD)
  moreover have "list_all is_space (rev ?b)"
    by (simp add: list_all_iff) (meson set_takeWhileD)
  ultimately show ?thesis by blast
qed

lemma trim_hd: "trim s \<noteq> [] \<Longrightarrow> \<not> is_space (hd (trim s))"
proof -
  assume ne: "trim s \<noteq> []"
  let ?m = "dropWhile is_space s"
  let ?r = "dropWhile is_space (rev ?m)"
  from ne have r: "?r \<noteq> []" by (simp add: trim_def)
  then have mne: "?m \<noteq> []" by (cases "?m") simp_all
  have "\<not> is_space (hd ?m)" using mne hd_dropWhile by blast
  moreover have "\<exists>zs. ?m = rev ?r @ zs"
    by (metis rev_append rev_rev_ident takeWhile_dropWhile_id)
  then obtain zs where "?m = rev ?r @ zs" by blast
  then have "hd ?m = hd (rev ?r)" using r by (metis hd_append2 rev_is_Nil_conv)
  ultimately show ?thesis by (simp add: trim_def)
qed

lemma trim_last: "trim s \<noteq> [] \<Longrightarrow> \<not> is_space (last (trim s))"
proof -
  assume ne: "trim s \<noteq> []"
  let ?r = "dropWhile is_space (rev (dropWhile is_space s))"
  from ne have r: "?r \<noteq> []" by (simp add: trim_def)
  then have "\<not> is_space (hd ?r)" using hd_dropWhile by blast
  then show ?thesis using r by (simp add: trim_def last_rev)
qed

lemma set_trim_subset: "set (trim s) \<subseteq> set s"
proof
  fix x assume "x \<in> set (trim s)"
  then have "x \<in> set (dropWhile is_space (rev (dropWhile is_space s)))"
    by (simp add: trim_def)
  then have "x \<in> set (rev (dropWhile is_space s))" by (rule set_dropWhileD)
  then have "x \<in> set (dropWhile is_space s)" by simp
  then show "x \<in> set s" by (rule set_dropWhileD)
qed

lemma trim_segment:
  "\<exists>pre post. g = pre @ trim g @ post \<and> list_all is_space pre \<and> list_all is_space post
     \<and> (trim g = [] \<or> (\<not> is_space (hd (trim g)) \<and> \<not> is_space (last (trim g))))"
  using trim_decompose [of g] trim_hd [of g] trim_last [of g] by blast

lemma normalizeCartridges_example:
  "normalizeCartridges ''a : b:: c '' = [''a'', ''b'', ''c'']"
  by (simp add: normalizeCartridges_def trim_def is_space_def)

section \<open>The diff engine and the normaliser\<close>

text \<open>
  C3. For all string lists A and B, no element of \<open>onlyInA\<close> equals an element of B and no
  element of \<open>onlyInB\<close> equals an element of A.
\<close>

theorem compareCartridges_disjoint:
  "set (onlyInA (compareCartridges A B)) \<inter> set B = {}
   \<and> set (onlyInB (compareCartridges A B)) \<inter> set A = {}"
  by (auto simp: compareCartridges_def Set_new_def Set_has_def)

theorem compareCartridges_disjoint_witness:
  "set (onlyInA (compareCartridges [''a'', ''b'', ''c''] [''a'', ''b''])) \<inter> set [''a'', ''b''] = {}
   \<and> set (onlyInB (compareCartridges [''a'', ''b'', ''c''] [''a'', ''b''])) \<inter> set [''a'', ''b'', ''c''] = {}"
  by (rule compareCartridges_disjoint)

text \<open>
  C6. \<open>compareCartridges\<close> does not deduplicate: an element of A that is absent from B occurs
  in \<open>onlyInA\<close> as many times as in A, and \<open>onlyInA\<close> is a subsequence of A (the relative
  order of A is kept); symmetrically for \<open>onlyInB\<close>.
\<close>

theorem compareCartridges_keeps_duplicates:
  "(\<forall>x. x \<notin> set B \<longrightarrow> count_list (onlyInA (compareCartridges A B)) x = count_list A x)
   \<and> subseq (onlyInA (compareCartridges A B)) A
   \<and> (\<forall>x. x \<notin> set A \<longrightarrow> count_list (onlyInB (compareCartridges A B)) x = count_list B x)
   \<and> subseq (onlyInB (compareCartridges A B)) B"
proof -
  have count: "x \<notin> set ys \<Longrightarrow> count_list (filter (\<lambda>i. i \<notin> set ys) xs) x = count_list xs x"
    for x :: string and xs ys
    by (induction xs) auto
  show ?thesis
    by (simp add: compareCartridges_def Set_new_def Set_has_def count)
qed

theorem compareCartridges_keeps_duplicates_witness:
  "count_list (onlyInA (compareCartridges [''x'', ''a'', ''x''] [''a''])) ''x'' = 2
   \<and> onlyInA (compareCartridges [''x'', ''a'', ''x''] [''a'']) = [''x'', ''x'']
   \<and> count_list (onlyInB (compareCartridges [''a''] [''y'', ''a'', ''y''])) ''y'' = 2"
  using compareCartridges_keeps_duplicates [of "[''a'']" "[''x'', ''a'', ''x'']"]
    compareCartridges_keeps_duplicates [of "[''y'', ''a'', ''y'']" "[''a'']"]
  by (simp add: compareCartridges_def Set_new_def Set_has_def)

text \<open>
  C7. \<open>normalizeCartridges\<close> cuts its input at every colon (the segments, joined by colons,
  give the input back, and no segment holds a colon), strips the white space at both ends
  of each segment, drops the segments that are then empty and keeps the others in order;
  \<open>normalizeCartridges "a : b:: c "\<close> is \<open>["a","b","c"]\<close>.
\<close>

theorem normalizeCartridges_segments:
  "normalizeCartridges ''a : b:: c '' = [''a'', ''b'', ''c'']
   \<and> (\<exists>segs. join '':'' segs = s
         \<and> (\<forall>g \<in> set segs. CHR '':'' \<notin> set g)
         \<and> (\<forall>g \<in> set segs. \<exists>pre post. g = pre @ trim g @ post
               \<and> list_all is_space pre \<and> list_all is_space post
               \<and> (trim g = [] \<or> (\<not> is_space (hd (trim g)) \<and> \<not> is_space (last (trim g)))))
         \<and> normalizeCartridges s = filter (\<lambda>c. c \<noteq> []) (map trim segs))
   \<and> (\<forall>c \<in> set (normalizeCartridges s).
         c \<noteq> [] \<and> CHR '':'' \<notin> set c \<and> \<not> is_space (hd c) \<and> \<not> is_space (last c))"
proof (intro conjI)
  show "normalizeCartridges ''a : b:: c '' = [''a'', ''b'', ''c'']"
    by (rule normalizeCartridges_example)
next
  let ?segs = "split CHR '':'' s"
  have "join '':'' ?segs = s" by (rule join_split)
  moreover have "\<forall>g \<in> set ?segs. CHR '':'' \<notin> set g"
    using split_no_sep by blast
  moreover have "\<forall>g \<in> set ?segs. \<exists>pre post. g = pre @ trim g @ post
      \<and> list_all is_space pre \<and> list_all is_space post
      \<and> (trim g = [] \<or> (\<not> is_space (hd (trim g)) \<and> \<not> is_space (last (trim g))))"
    using trim_segment by blast
  moreover have "normalizeCartridges s = filter (\<lambda>c. c \<noteq> []) (map trim ?segs)"
    by (simp add: normalizeCartridges_def)
  ultimately show "\<exists>segs. join '':'' segs = s
         \<and> (\<forall>g \<in> set segs. CHR '':'' \<notin> set g)
         \<and> (\<forall>g \<in> set segs. \<exists>pre post. g = pre @ trim g @ post
               \<and> list_all is_space pre \<and> list_all is_space post
               \<and> (trim g = [] \<or> (\<not> is_space (hd (trim g)) \<and> \<not> is_space (last (trim g)))))
         \<and> normalizeCartridges s = filter (\<lambda>c. c \<noteq> []) (map trim segs)"
    by blast
next
  show "\<forall>c \<in> set (normalizeCartridges s).
         c \<noteq> [] \<and> CHR '':'' \<notin> set c \<and> \<not> is_space (hd c) \<and> \<not> is_space (last c)"
  proof
    fix c assume "c \<in> set (normalizeCartridges s)"
    then obtain g where g: "g \<in> set (split CHR '':'' s)" and c: "c = trim g" and ne: "c \<noteq> []"
      by (auto simp: normalizeCartridges_def)
    have "CHR '':'' \<notin> set c"
      using split_no_sep [OF g] set_trim_subset [of g] c by blast
    with ne c trim_hd [of g] trim_last [of g]
    show "c \<noteq> [] \<and> CHR '':'' \<notin> set c \<and> \<not> is_space (hd c) \<and> \<not> is_space (last c)"
      by simp
  qed
qed

theorem normalizeCartridges_segments_witness:
  "normalizeCartridges ''a : b:: c '' = [''a'', ''b'', ''c'']
   \<and> normalizeCartridges '' x :y: '' = [''x'', ''y'']
   \<and> join '':'' (split CHR '':'' '' x :y: '') = '' x :y: ''"
  using normalizeCartridges_segments [of "'' x :y: ''"]
  by (simp add: normalizeCartridges_def trim_def is_space_def)

section \<open>Evaluating the model on the examples\<close>

text \<open>The defining equations that the example runs unfold.\<close>

lemmas js_eval =
  Let_def logmsg_def no_effects_def File_IMPEX_def File_SEPARATOR_def show_nat.simps show_int_def
  slice_last2_def replace_quotes_def truthy_param_def char_of_eq_iff suffix_to_prefix

lemmas compare_step_eval =
  CartridgePathComparisonReport_execute_def execute_compare_def safeParseArray_def getToken_def
  compare_pairs.simps index_below_def compare_pair_def fetchCartridges_def callDataOcapi_def
  normalizeCartridges_def trim_def is_space_def compareCartridges_def Set_new_def Set_has_def
  report_element_def structuredDiff_def write_report_def report_dir_def report_path_def

lemmas notify_step_eval =
  SendSiteCartridgePathDifference_execute_def working_folder_def startsWith_def endsWith_def
  indexOf_def aggregate_def add_maxLen_def cartridgediff_length_def Math_max_def hasDiffData_def
  site_has_diff_def has_cartridgediff_def send_and_archive_def sendMail_def sendMail_try_def
  mail_calls_def template_context_def
  report_element_def structuredDiff_def

lemmas examples_eval =
  example_platform_def example_args_def example_pdict_def example_parse_def report_text_def
  report_value_def failing_fetch_platform_def failing_write_platform_def failing_mail_platform_def
  unqueued_mail_platform_def two_files_platform_def

section \<open>The comparison step\<close>

text \<open>
  C1. The claim is that a failed fetch for a host makes the step pass over that pair and
  go on. In the code \<open>fetchCartridges\<close> answers a failed fetch with a \<^verbatim>\<open>Status\<close> object,
  which the test \<^verbatim>\<open>cartridges1 && cartridges2\<close> lets through, and the comparison then raises:
  with hosts \<open>h1\<close>, \<open>h2\<close> and a response for \<open>h1\<close> that lacks the ok flag, the run ends in
  a \<^verbatim>\<open>TypeError\<close>, with both hosts fetched and nothing written.
\<close>

theorem failed_fetch_aborts_run:
  "CartridgePathComparisonReport_execute failing_fetch_platform (Some example_args)
   = (Inl TypeError,
      \<lparr> requests = [''https://h1/s/-/dw/data/v23_2/sites/RefArch'',
                     ''https://h2/s/-/dw/data/v23_2/sites/RefArch''],
        created = [], written = [], renamed = [], sent = [],
        logged = [(LogInfo, ''Comparing cartridges for site: {0}'', [''RefArch'']),
                  (LogError, ''Failed to get cartridges from host {0} for site {1}'',
                   [''h1'', ''RefArch''])] \<rparr>)"
  by (simp add: compare_step_eval examples_eval js_eval)

theorem failed_fetch_aborts_run_witness:
  "fst (CartridgePathComparisonReport_execute failing_fetch_platform (Some example_args)) = Inl TypeError
   \<and> written (snd (CartridgePathComparisonReport_execute failing_fetch_platform (Some example_args))) = []"
  using failed_fetch_aborts_run by simp

text \<open>
  C5. When the step is not disabled and the host list parsed from \<open>hostInstances\<close> has odd
  length or fewer than two entries, the step returns an ERROR status, with no request made
  and nothing created or written. When the step is disabled and the required parameters
  are there, it returns OK with code DISABLED whatever the host list is, with no effect.
\<close>

theorem odd_host_list_is_rejected:
  assumes "hostInstances a = Some h"
    and "fst (safeParseArray p h no_effects) = JArr hosts"
    and "length hosts < 2 \<or> odd (length hosts)"
  shows "(\<not> disableStep a \<longrightarrow>
            (\<exists>code msg st. CartridgePathComparisonReport_execute p (Some a) = (Inr (Status ERROR code msg), st)
               \<and> requests st = [] \<and> created st = [] \<and> written st = []))
       \<and> (disableStep a \<and> truthy_param (hostInstances a) \<and> truthy_param (ocapiVersion a) \<longrightarrow>
            CartridgePathComparisonReport_execute p (Some a)
              = (Inr (Status OK (Some ''DISABLED'') (Some ''Step disabled.'')), no_effects))"
  using assms
  by (auto simp: CartridgePathComparisonReport_execute_def execute_compare_def no_effects_def
      safeParseArray_def logmsg_def split: option.splits prod.splits)

theorem odd_host_list_is_rejected_witness:
  "CartridgePathComparisonReport_execute example_platform (Some odd_args)
     = (Inr (Status ERROR (Some ''ERROR'')
              (Some ''hostInstances must contain even number of hosts to form pairs.'')), no_effects)"
proof -
  have h: "hostInstances odd_args = Some ''['h1']''"
    by (simp add: odd_args_def example_args_def)
  have parsed: "fst (safeParseArray example_platform ''['h1']'' no_effects) = JArr [JStr ''h1'']"
    by (simp add: safeParseArray_def examples_eval js_eval)
  have len: "length [JStr ''h1''] < 2 \<or> odd (length [JStr ''h1''])" by simp
  show ?thesis
    using odd_host_list_is_rejected [OF h parsed len]
    by (simp add: odd_args_def compare_step_eval examples_eval js_eval)
qed

theorem disabled_step_counterexample:
  "hostInstances disabled_args = Some ''['h1']''
   \<and> fst (safeParseArray example_platform ''['h1']'' no_effects) = JArr [JStr ''h1'']
   \<and> odd (length [JStr ''h1''])
   \<and> CartridgePathComparisonReport_execute example_platform (Some disabled_args)
       = (Inr (Status OK (Some ''DISABLED'') (Some ''Step disabled.'')), no_effects)"
  by (simp add: disabled_args_def safeParseArray_def compare_step_eval examples_eval js_eval)

text \<open>
  C8. When the comparison step reaches the writing of the report, it returns the status OK
  whatever happens there; when creating the folder or writing the file throws, no file is
  written and the last log entry is the error that the \<^verbatim>\<open>catch\<close> block logs.
\<close>

theorem write_failure_is_not_fatal:
  assumes "execute_compare p (Some a) no_effects = (Inr (Continue diff), st)"
  shows "fst (CartridgePathComparisonReport_execute p (Some a))
           = Inr (Status OK (Some ''OK'') (Some ''Cartridge comparison completed.''))
     \<and> ((\<not> dir_exists p (report_dir a) \<and> \<not> mkdirs p (report_dir a))
          \<or> \<not> write_file p (report_path p a (current_site p)) (JSON_stringify p diff)
         \<longrightarrow> written (snd (CartridgePathComparisonReport_execute p (Some a))) = written st
             \<and> last (logged (snd (CartridgePathComparisonReport_execute p (Some a))))
                 = (LogError, ''Error writing diff for site {0}: {1}'', [current_site p]))"
  using assms
  by (auto simp: CartridgePathComparisonReport_execute_def write_report_def logmsg_def Let_def)

theorem write_failure_is_not_fatal_witness:
  "fst (CartridgePathComparisonReport_execute failing_write_platform (Some example_args))
     = Inr (Status OK (Some ''OK'') (Some ''Cartridge comparison completed.''))
   \<and> written (snd (CartridgePathComparisonReport_execute failing_write_platform (Some example_args))) = []
   \<and> last (logged (snd (CartridgePathComparisonReport_execute failing_write_platform (Some example_args))))
       = (LogError, ''Error writing diff for site {0}: {1}'', [''RefArch''])"
proof -
  have reached: "execute_compare failing_write_platform (Some example_args) no_effects
      = (Inr (Continue report_value),
         snd (execute_compare failing_write_platform (Some example_args) no_effects))"
    by (simp add: prod_eq_iff compare_step_eval examples_eval js_eval)
  have fails: "\<not> write_file failing_write_platform
      (report_path failing_write_platform example_args (current_site failing_write_platform))
      (JSON_stringify failing_write_platform report_value)"
    by (simp add: examples_eval)
  have w: "written (snd (execute_compare failing_write_platform (Some example_args) no_effects)) = []"
    by (simp add: compare_step_eval examples_eval js_eval)
  have site: "current_site failing_write_platform = ''RefArch''"
    by (simp add: examples_eval)
  show ?thesis
    using write_failure_is_not_fatal [OF reached] fails w site by simp
qed

section \<open>Sending the mail\<close>




section \<open>The aggregate of the notification step\<close>

lemma map_of_obj_put:
  "map_of (obj_put kvs key x) k = (if k = key then Some x else map_of kvs k)"
  by (induction kvs key x rule: obj_put.induct) auto

lemma cartridgediff_length_total: "\<exists>n. cartridgediff_length e = Inr n"
proof (cases "truthy e")
  case False
  then show ?thesis by (simp add: cartridgediff_length_def)
next
  case True
  then obtain d where d: "js_get e ''cartridgediff'' = Inr d"
    by (cases e) auto
  show ?thesis
  proof (cases "truthy d")
    case False
    with True d show ?thesis by (simp add: cartridgediff_length_def)
  next
    case td: True
    then obtain n where "js_get d ''length'' = Inr n"
      by (cases d) auto
    with True d td show ?thesis by (simp add: cartridgediff_length_def)
  qed
qed



lemma add_maxLen_object:
  assumes "map_of kvs ''elementsToReport'' = Some x" and "x \<noteq> JUndefined" and "x \<noteq> JNull"
  shows "\<exists>m. add_maxLen p (JObj kvs) = Inr (JObj (obj_put kvs ''maxLen'' m))"
proof -
  obtain e0 where e0: "js_index x 0 = Inr e0" using assms(2,3) by (cases x) auto
  obtain e1 where e1: "js_index x 1 = Inr e1" using assms(2,3) by (cases x) auto
  obtain lenA where a: "cartridgediff_length e0 = Inr lenA" using cartridgediff_length_total by blast
  obtain lenB where b: "cartridgediff_length e1 = Inr lenB" using cartridgediff_length_total by blast
  have "add_maxLen p (JObj kvs) = Inr (JObj (obj_put kvs ''maxLen'' (Math_max p lenA lenB)))"
    using assms(1) e0 e1 a b by (simp add: add_maxLen_def)
  then show ?thesis by blast
qed


lemma forEach_Inr:
  "Array_forEach f rs = Inr rs' \<Longrightarrow> list_all2 (\<lambda>r r'. f r = Inr r') rs rs'"
  by (induction rs arbitrary: rs') (auto split: sum.splits)

lemma forEach_total:
  "(\<And>r. r \<in> set rs \<Longrightarrow> \<exists>r'. f r = Inr r') \<Longrightarrow> \<exists>rs'. Array_forEach f rs = Inr rs'"
  by (induction rs) (auto split: sum.splits, fastforce)

lemma some_exists:
  "(\<And>x. x \<in> set xs \<Longrightarrow> f x = Inr (g x)) \<Longrightarrow> Array_some f xs = Inr (\<exists>x \<in> set xs. g x)"
  by (induction xs) auto



lemma site_report_annotated:
  assumes "is_SiteReport r"
  shows "\<exists>r'. add_maxLen p r = Inr r' \<and> elements_of r' = elements_of r"
proof -
  from assms obtain kvs es where r: "r = JObj kvs"
    and m: "map_of kvs ''elementsToReport'' = Some (JArr es)"
    by (cases r) (auto simp: is_SiteReport_def split: option.splits jsval.splits)
  from add_maxLen_object [OF m] obtain mm
    where "add_maxLen p (JObj kvs) = Inr (JObj (obj_put kvs ''maxLen'' mm))" by auto
  moreover have "elements_of (JObj (obj_put kvs ''maxLen'' mm)) = elements_of (JObj kvs)"
    by (simp add: map_of_obj_put)
  ultimately show ?thesis using r by auto
qed

lemma has_cartridgediff_element:
  "cartridgediff_of e = Some d \<Longrightarrow> has_cartridgediff p e = Inr (d \<noteq> [])"
  by (cases e) (auto simp: has_cartridgediff_def split: option.splits jsval.splits)

lemma site_has_diff_SiteReport:
  assumes "is_SiteReport r"
  shows "site_has_diff p r = Inr (\<exists>d \<in> set (diffs_of r). d \<noteq> [])"
proof -
  from assms obtain kvs es where r: "r = JObj kvs"
    and m: "map_of kvs ''elementsToReport'' = Some (JArr es)"
    by (cases r) (auto simp: is_SiteReport_def split: option.splits jsval.splits)
  from assms r m have es: "\<And>e. e \<in> set es \<Longrightarrow> cartridgediff_of e \<noteq> None"
    by (simp add: is_SiteReport_def list_all_iff)
  have "Array_some (has_cartridgediff p) es = Inr (\<exists>e \<in> set es. the (cartridgediff_of e) \<noteq> [])"
  proof (rule some_exists)
    fix e assume "e \<in> set es"
    with es obtain d where "cartridgediff_of e = Some d" by fastforce
    then show "has_cartridgediff p e = Inr (the (cartridgediff_of e) \<noteq> [])"
      by (simp add: has_cartridgediff_element)
  qed
  with r m show ?thesis
    by (simp add: site_has_diff_def diffs_of_def)
qed

lemma hasDiffData_SiteReports:
  assumes "list_all is_SiteReport rs"
  shows "hasDiffData p rs = Inr (\<exists>r \<in> set rs. \<exists>d \<in> set (diffs_of r). d \<noteq> [])"
  unfolding hasDiffData_def
proof (rule some_exists)
  fix r assume "r \<in> set rs"
  with assms have "is_SiteReport r" by (simp add: list_all_iff)
  then show "site_has_diff p r = Inr (\<exists>d \<in> set (diffs_of r). d \<noteq> [])"
    by (rule site_has_diff_SiteReport)
qed

text \<open>
  C4. For reports of the shape the comparison step writes, the annotation succeeds and
  \<open>hasDiffData\<close> is true exactly when some \<open>cartridgediff\<close> array of some element of some
  report is not empty; a report whose arrays are all empty contributes nothing to it.
\<close>

theorem hasDiffData_iff_some_diff:
  assumes "list_all is_SiteReport rs"
  shows "\<exists>annotated. aggregate p rs
           = Inr (annotated, (\<exists>r \<in> set rs. \<exists>d \<in> set (diffs_of r). d \<noteq> []))"
proof -
  have "\<exists>rs'. Array_forEach (add_maxLen p) rs = Inr rs'"
  proof (rule forEach_total)
    fix r assume "r \<in> set rs"
    with assms have "is_SiteReport r" by (simp add: list_all_iff)
    then show "\<exists>r'. add_maxLen p r = Inr r'" using site_report_annotated by blast
  qed
  then obtain rs' where rs': "Array_forEach (add_maxLen p) rs = Inr rs'" by blast
  have rel: "list_all2 (\<lambda>r r'. add_maxLen p r = Inr r') rs rs'"
    by (rule forEach_Inr [OF rs'])
  have same: "list_all2 (\<lambda>r r'. is_SiteReport r' \<and> diffs_of r' = diffs_of r) rs rs'"
    using rel assms
  proof (induction rule: list_all2_induct)
    case Nil
    show ?case by simp
  next
    case (Cons r rs r' rs')
    from Cons.prems have sr: "is_SiteReport r" by simp
    from site_report_annotated [OF sr, of p] Cons.hyps(1)
    have "elements_of r' = elements_of r" by auto
    with sr have "is_SiteReport r' \<and> diffs_of r' = diffs_of r"
      by (simp add: is_SiteReport_def diffs_of_def)
    with Cons show ?case by simp
  qed
  have all': "list_all is_SiteReport rs'"
    using same by (induction rule: list_all2_induct) auto
  have eq: "(\<exists>r \<in> set rs'. \<exists>d \<in> set (diffs_of r). d \<noteq> []) = (\<exists>r \<in> set rs. \<exists>d \<in> set (diffs_of r). d \<noteq> [])"
    using same by (induction rule: list_all2_induct) auto
  show ?thesis
    using rs' hasDiffData_SiteReports [OF all', of p] eq by (simp add: aggregate_def)
qed

theorem hasDiffData_iff_some_diff_witness:
  "aggregate example_platform [report_value]
     = Inr ([JObj [(''siteId'', JStr ''RefArch''),
                   (''elementsToReport'',
                    JArr [JObj [(''hostInstance'', JStr ''h1''), (''cartridgediff'', JArr [JStr ''c''])],
                          JObj [(''hostInstance'', JStr ''h2''), (''cartridgediff'', JArr [])]]),
                   (''maxLen'', JNum 1)]], True)
   \<and> fst (projr (aggregate example_platform
        [structuredDiff ''RefArch'' [report_element (JStr ''h1'') [], report_element (JStr ''h2'') []]]))
       = [JObj [(''siteId'', JStr ''RefArch''),
                   (''elementsToReport'',
                    JArr [JObj [(''hostInstance'', JStr ''h1''), (''cartridgediff'', JArr [])],
                          JObj [(''hostInstance'', JStr ''h2''), (''cartridgediff'', JArr [])]]),
                   (''maxLen'', JNum 0)]]
   \<and> snd (projr (aggregate example_platform
        [structuredDiff ''RefArch'' [report_element (JStr ''h1'') [], report_element (JStr ''h2'') []]]))
       = False"
proof -
  have shape: "list_all is_SiteReport [report_value]"
    by (simp add: is_SiteReport_def examples_eval report_element_def structuredDiff_def)
  have shape2: "list_all is_SiteReport
      [structuredDiff ''RefArch'' [report_element (JStr ''h1'') [], report_element (JStr ''h2'') []]]"
    by (simp add: is_SiteReport_def report_element_def structuredDiff_def)
  show ?thesis
    using hasDiffData_iff_some_diff [OF shape, of example_platform]
      hasDiffData_iff_some_diff [OF shape2, of example_platform]
    by (simp add: notify_step_eval examples_eval js_eval)
qed





























section \<open>The notification step\<close>

text \<open>
  C2. The claim is that a failed dispatch makes the notification step return ERROR and
  archive nothing. In the code \<open>sendMail\<close> catches the failure and returns \<^verbatim>\<open>false\<close>, which
  the step does not look at: with a mail transport that throws, the step returns OK, no
  mail is sent, and the report of the day is renamed into the archive.
\<close>

theorem failed_mail_still_archives:
  "fst (SendSiteCartridgePathDifference_execute failing_mail_platform example_pdict)
     = Inr (Status OK None None)
   \<and> sent (snd (SendSiteCartridgePathDifference_execute failing_mail_platform example_pdict)) = []
   \<and> renamed (snd (SendSiteCartridgePathDifference_execute failing_mail_platform example_pdict))
     = [(''cartridge_difference_20240105_RefArch.json'',
         ''IMPEX/src/cartridges/archive/cartridge_difference_20240105_RefArch.json'')]"
  by (simp add: notify_step_eval examples_eval js_eval)

theorem failed_mail_still_archives_witness:
  "fst (SendSiteCartridgePathDifference_execute failing_mail_platform example_pdict)
     = Inr (Status OK None None)
   \<and> length (renamed (snd (SendSiteCartridgePathDifference_execute failing_mail_platform example_pdict))) = 1"
  using failed_mail_still_archives by simp

end
